theory Spec2Isabelle
  imports Main
begin

section \<open>Python string operations used by the scripts\<close>

text \<open>
  A Python \<^verbatim>\<open>str\<close> is modelled as a \<^typ>\<open>string\<close>: one \<^typ>\<open>char\<close> per character of the
  text, for the characters with code points below 256. \<^verbatim>\<open>str.strip()\<close> and
  \<^verbatim>\<open>str.split()\<close> without an argument treat as white space the characters for which
  \<^verbatim>\<open>str.isspace\<close> holds; below 256 these are 9 to 13, 28 to 32, 133 and 160.
\<close>

definition is_space :: "char \<Rightarrow> bool" where
  "is_space c = (of_char c \<in> {9, 10, 11, 12, 13, 28, 29, 30, 31, 32, 133, 160 :: nat})"

text \<open>\<^verbatim>\<open>s.rstrip()\<close> and \<^verbatim>\<open>s.strip()\<close>: white space removed at the end, and at both
  ends.\<close>

definition py_rstrip :: "string \<Rightarrow> string" where
  "py_rstrip s = rev (dropWhile is_space (rev s))"

definition py_strip :: "string \<Rightarrow> string" where
  "py_strip s = py_rstrip (dropWhile is_space s)"

text \<open>\<^verbatim>\<open>s.startswith(p)\<close>.\<close>

definition startswith :: "string \<Rightarrow> string \<Rightarrow> bool" where
  "startswith s p = (take (length p) s = p)"

text \<open>
  \<^verbatim>\<open>s.split(sep)\<close> for a separator that is not empty (every separator of the scripts is
  a literal): the text is cut at the occurrences of \<open>sep\<close>, found from the left and not
  overlapping. The result always has at least one fragment.
\<close>

function py_split :: "string \<Rightarrow> string \<Rightarrow> string list" where
  "py_split sep [] = [[]]"
| "py_split sep (c # cs) =
     (if sep \<noteq> [] \<and> startswith (c # cs) sep
      then [] # py_split sep (drop (length sep) (c # cs))
      else (case py_split sep cs of f # fs \<Rightarrow> (c # f) # fs | [] \<Rightarrow> [[c]]))"
  by pat_completeness auto
termination
  by (relation "measure (\<lambda>(sep, s). length s)") auto

text \<open>\<^verbatim>\<open>s.replace(old, new)\<close> for \<open>old\<close> not empty: every occurrence, from the left.\<close>

function py_replace :: "string \<Rightarrow> string \<Rightarrow> string \<Rightarrow> string" where
  "py_replace old new [] = []"
| "py_replace old new (c # cs) =
     (if old \<noteq> [] \<and> startswith (c # cs) old
      then new @ py_replace old new (drop (length old) (c # cs))
      else c # py_replace old new cs)"
  by pat_completeness auto
termination
  by (relation "measure (\<lambda>(old, new, s). length s)") auto

text \<open>\<^verbatim>\<open>sep.join(xs)\<close>.\<close>

fun py_join :: "string \<Rightarrow> string list \<Rightarrow> string" where
  "py_join sep [] = []"
| "py_join sep [x] = x"
| "py_join sep (x # y # ys) = x @ sep @ py_join sep (y # ys)"

text \<open>\<^verbatim>\<open>s.split()\<close>: the runs of characters that are not white space.\<close>

fun split_ws :: "string \<Rightarrow> string \<Rightarrow> string list" where
  "split_ws cur [] = (if cur = [] then [] else [cur])"
| "split_ws cur (c # cs) =
     (if is_space c then (if cur = [] then split_ws [] cs else cur # split_ws [] cs)
      else split_ws (cur @ [c]) cs)"

definition py_split_ws :: "string \<Rightarrow> string list" where
  "py_split_ws s = split_ws [] s"

text \<open>
  \<^verbatim>\<open>int(s)\<close> on a string, as CPython 3.11 and later read it in base 10. When the text
  has a character above 127, each character from 127 on is replaced first: white space
  by a space, any other by \<^verbatim>\<open>?\<close> (below 256 none of them is a decimal digit). Then the
  reader skips the white space of C (9 to 13 and 32), takes an optional sign, refuses a
  leading underscore, scans digits and underscores, where two underscores in a row or
  one at the end are refused, refuses no digit at all and more than 4300 digits (the
  limit when none is set), skips
  white space of C, and must be at the end. \<open>None\<close> is the \<^verbatim>\<open>ValueError\<close>.
\<close>

definition is_digit :: "char \<Rightarrow> bool" where
  "is_digit c = (48 \<le> (of_char c :: nat) \<and> (of_char c :: nat) \<le> 57)"

definition digit_val :: "char \<Rightarrow> nat" where
  "digit_val c = of_char c - 48"

definition is_c_space :: "char \<Rightarrow> bool" where
  "is_c_space c = (of_char c \<in> {9, 10, 11, 12, 13, 32 :: nat})"

definition int_ascii :: "string \<Rightarrow> string" where
  "int_ascii s =
     (if list_all (\<lambda>c. (of_char c :: nat) < 128) s then s
      else map (\<lambda>c. if (of_char c :: nat) < 127 then c
                     else if is_space c then CHR '' '' else CHR ''?'') s)"

text \<open>The scan of the digits: the character before, the digits so far, the text; the
  result is the digits and the rest of the text.\<close>

fun scan_digits :: "char \<Rightarrow> string \<Rightarrow> string \<Rightarrow> (string \<times> string) option" where
  "scan_digits prev ds [] = (if prev = CHR ''_'' then None else Some (ds, []))"
| "scan_digits prev ds (c # cs) =
     (if is_digit c then scan_digits c (ds @ [c]) cs
      else if c = CHR ''_'' then (if prev = CHR ''_'' then None else scan_digits c ds cs)
      else if prev = CHR ''_'' then None
      else Some (ds, c # cs))"

definition digits_value :: "string \<Rightarrow> nat" where
  "digits_value ds = foldl (\<lambda>n c. 10 * n + digit_val c) 0 ds"

definition py_int :: "string \<Rightarrow> int option" where
  "py_int s =
     (let u = dropWhile is_c_space (int_ascii s);
          v = (if startswith u ''+'' \<or> startswith u ''-'' then tl u else u)
      in if startswith v ''_'' then None
         else (case scan_digits (CHR 0x00) [] v of
                 None \<Rightarrow> None
               | Some (ds, rest) \<Rightarrow>
                   if ds = [] then None
                   else if length ds > 4300 then None
                   else if dropWhile is_c_space rest \<noteq> [] then None
                   else if startswith u ''-'' then Some (- int (digits_value ds))
                   else Some (int (digits_value ds))))"

section \<open>The report converter (convert-report-to-doc.py)\<close>

text \<open>
  The document built through python-docx is the sequence of the paragraphs added to it,
  in order: \<^verbatim>\<open>add_heading(text, level)\<close>, \<^verbatim>\<open>add_paragraph(text)\<close> and
  \<^verbatim>\<open>add_paragraph(text, style='List Bullet')\<close>.
\<close>

datatype node = Heading nat string | Paragraph string | ListBullet string

definition sep2 :: string where "sep2 = ''\<newline>## ''"
definition sep3 :: string where "sep3 = ''\<newline>### ''"

text \<open>Lines 82 to 86: one item of a bulleted block.\<close>

definition emit_item :: "string \<Rightarrow> node list" where
  "emit_item list_item =
     (if py_strip list_item \<noteq> []
      then [ListBullet (py_strip (if startswith list_item ''- '' then drop 2 list_item else list_item))]
      else [])"

text \<open>Lines 79 to 88: one blank-line separated block of a subsection.\<close>

definition emit_block :: "string \<Rightarrow> node list" where
  "emit_block para =
     (if py_strip para \<noteq> []
      then (if startswith (py_strip para) ''- ''
            then concat (map emit_item (py_split ''\<newline>- '' (py_strip para)))
            else [Paragraph (py_strip para)])
      else [])"

text \<open>Lines 61 to 63: one blank-line separated block directly under a section.\<close>

definition emit_direct :: "string \<Rightarrow> node list" where
  "emit_direct para = (if py_strip para \<noteq> [] then [Paragraph (py_strip para)] else [])"

text \<open>Lines 48 to 50 and 68 to 70: the first line is the title, the rest the content.\<close>

definition title_of :: "string \<Rightarrow> string" where
  "title_of section = hd (py_split ''\<newline>'' (py_strip section))"

definition content_of :: "string \<Rightarrow> string" where
  "content_of section = py_strip (py_join ''\<newline>'' (tl (py_split ''\<newline>'' (py_strip section))))"

text \<open>Lines 67 to 88: one subsection.\<close>

definition emit_subsection :: "string \<Rightarrow> node list" where
  "emit_subsection subsection =
     Heading 2 (title_of subsection) #
     (if content_of subsection \<noteq> []
      then concat (map emit_block (py_split ''\<newline>\<newline>'' (content_of subsection)))
      else [])"

text \<open>Lines 47 to 88: one section.\<close>

definition emit_section :: "string \<Rightarrow> node list" where
  "emit_section section =
     (let subsections = py_split sep3 (content_of section)
      in Heading 1 (title_of section) #
         (if \<not> startswith (hd subsections) ''###''
          then concat (map emit_direct (py_split ''\<newline>\<newline>'' (py_strip (hd subsections))))
          else []) @
         concat (map emit_subsection (tl subsections)))"

text \<open>Line 42: the title.\<close>

definition doc_title :: "string \<Rightarrow> string" where
  "doc_title md_content = py_replace ''# '' '''' (py_strip (hd (py_split sep2 md_content)))"

text \<open>Lines 39 to 88: the document built from the text of REPORT.md.\<close>

definition convert :: "string \<Rightarrow> node list" where
  "convert md_content =
     Heading 0 (doc_title md_content) # concat (map emit_section (tl (py_split sep2 md_content)))"

text \<open>
  What a call into a library does: it raises an exception, given by its \<^verbatim>\<open>str(e)\<close>, or
  it returns a value.
\<close>

datatype 'a outcome = Raises string | Returns 'a

text \<open>An exception that no handler of the script catches: the interpreter prints a
  traceback to stderr and the process ends with status 1.\<close>

datatype fault = ImportError | ValueError string | InitError string







section \<open>The adapter scripts\<close>

text \<open>
  The dictionaries the adapters build and print with \<^verbatim>\<open>json.dumps\<close> are association
  lists in insertion order; the payload a provider library delivers is a JSON value.
\<close>

datatype json = JNull | JInt int | JStr string | JArr "json list" | JObj "(string \<times> json) list"

type_synonym dict = "(string \<times> json) list"

definition error_dict :: "string \<Rightarrow> dict" where
  "error_dict m = [(''status'', JStr ''error''), (''message'', JStr m)]"

definition dict_get :: "dict \<Rightarrow> string \<Rightarrow> json \<Rightarrow> json" where
  "dict_get d k dflt = (case map_of d k of Some v \<Rightarrow> v | None \<Rightarrow> dflt)"

text \<open>One run of an adapter: the lines printed to stdout (each the dictionary given to
  \<^verbatim>\<open>json.dumps\<close>), the exit status, and the exception that ended the run, if one did.\<close>

text \<open>\<^verbatim>\<open>sys.argv[i] if len(sys.argv) > i else dflt\<close>.\<close>

definition arg_or :: "string list \<Rightarrow> nat \<Rightarrow> string \<Rightarrow> string" where
  "arg_or argv i dflt = (if length argv > i then argv ! i else dflt)"

record proc =
  stdout :: "dict list"
  exit_code :: nat
  unhandled :: "fault option"

definition printed :: "dict \<Rightarrow> proc" where
  "printed d = \<lparr>stdout = [d], exit_code = 0, unhandled = None\<rparr>"

definition crashed :: "fault \<Rightarrow> proc" where
  "crashed f = \<lparr>stdout = [], exit_code = 1, unhandled = Some f\<rparr>"

subsection \<open>yahoo\_finance.py\<close>

text \<open>
  The market-data library as one run meets it. Each field stands for the statements of a
  \<^verbatim>\<open>try\<close> block that call the library: \<open>stock_body\<close> for lines 12 to 33 (giving
  \<^verbatim>\<open>filtered_info\<close> and \<^verbatim>\<open>history_data\<close>), \<open>market_body\<close> for lines 50 to 71,
  \<open>sectors_body\<close> for lines 87 to 124 (giving \<^verbatim>\<open>current_date\<close> and \<^verbatim>\<open>results\<close>),
  \<open>tickers\<close> for line 140 and \<open>ticker_info\<close> for lines 147 and 148.
\<close>

record yahoo_env =
  y_imports_ok :: bool
  stock_body :: "string \<Rightarrow> string \<Rightarrow> (json \<times> json) outcome"
  market_body :: "json outcome"
  sectors_body :: "(string \<times> json) outcome"
  tickers :: "string \<Rightarrow> unit outcome"
  ticker_info :: "string \<Rightarrow> dict outcome"

definition get_stock_data :: "yahoo_env \<Rightarrow> string \<Rightarrow> string \<Rightarrow> dict" where
  "get_stock_data env symbol period =
     (case stock_body env symbol period of
        Raises m \<Rightarrow> error_dict m
      | Returns (filtered_info, history_data) \<Rightarrow>
          [(''status'', JStr ''success''), (''info'', filtered_info), (''history'', history_data)])"

definition get_market_summary :: "yahoo_env \<Rightarrow> dict" where
  "get_market_summary env =
     (case market_body env of
        Raises m \<Rightarrow> error_dict m
      | Returns results \<Rightarrow> [(''status'', JStr ''success''), (''data'', results)])"

definition get_industry_performance :: "yahoo_env \<Rightarrow> dict" where
  "get_industry_performance env =
     (case sectors_body env of
        Raises m \<Rightarrow> error_dict m
      | Returns (current_date, results) \<Rightarrow>
          [(''status'', JStr ''success''), (''date'', JStr current_date), (''data'', results)])"

text \<open>Lines 150 to 156: the entry of one ticker.\<close>

definition search_entry :: "string \<Rightarrow> dict \<Rightarrow> json" where
  "search_entry ticker_symbol info =
     JObj [(''symbol'', JStr ticker_symbol),
           (''name'', dict_get info ''shortName'' (JStr [])),
           (''exchange'', dict_get info ''exchange'' (JStr [])),
           (''sector'', dict_get info ''sector'' (JStr [])),
           (''industry'', dict_get info ''industry'' (JStr []))]"

text \<open>Lines 145 to 160: the loop over the symbols of the query, with its own handler.\<close>

fun search_loop :: "yahoo_env \<Rightarrow> int \<Rightarrow> string list \<Rightarrow> json list \<Rightarrow> json list" where
  "search_loop env limit [] results = results"
| "search_loop env limit (ticker_symbol # rest) results =
     (case ticker_info env ticker_symbol of
        Raises m \<Rightarrow> search_loop env limit rest results
      | Returns info \<Rightarrow>
          (case map_of info ''shortName'' of
             None \<Rightarrow> search_loop env limit rest results
           | Some v \<Rightarrow>
               (if int (length (results @ [search_entry ticker_symbol info])) \<ge> limit
                then results @ [search_entry ticker_symbol info]
                else search_loop env limit rest (results @ [search_entry ticker_symbol info]))))"

definition search_stocks :: "yahoo_env \<Rightarrow> string \<Rightarrow> int \<Rightarrow> dict" where
  "search_stocks env query limit =
     (case tickers env query of
        Raises m \<Rightarrow> error_dict m
      | Returns u \<Rightarrow>
          [(''status'', JStr ''success''),
           (''data'', JArr (search_loop env limit (py_split_ws query) []))])"

text \<open>The script as a whole: the imports of lines 3 to 7, then \<^verbatim>\<open>main()\<close> on \<^verbatim>\<open>sys.argv\<close>.\<close>

definition yahoo_main :: "yahoo_env \<Rightarrow> string list \<Rightarrow> proc" where
  "yahoo_main env argv =
     (if \<not> y_imports_ok env then crashed ImportError
      else if length argv < 2 then printed (error_dict ''No command specified'')
      else if argv ! 1 = ''stock'' then
        (if length argv < 3 then printed (error_dict ''No symbol specified'')
         else printed (get_stock_data env (argv ! 2) (arg_or argv 3 ''1mo'')))
      else if argv ! 1 = ''market'' then printed (get_market_summary env)
      else if argv ! 1 = ''sectors'' then printed (get_industry_performance env)
      else if argv ! 1 = ''search'' then
        (if length argv < 3 then printed (error_dict ''No query specified'')
         else (case (if length argv > 3 then py_int (argv ! 3) else Some 10) of
                 None \<Rightarrow> crashed (ValueError (argv ! 3))
               | Some limit \<Rightarrow> printed (search_stocks env (argv ! 2) limit)))
      else printed (error_dict (''Unknown command: '' @ argv ! 1)))"

subsection \<open>google\_trends.py\<close>

text \<open>
  The frame \<^verbatim>\<open>interest_over_time()\<close> returns: the dates of its index, which is named
  \<^verbatim>\<open>date\<close>, already as the strings \<^verbatim>\<open>strftime\<close> gives, and its columns in order, each
  with its name and one value per date.
\<close>

record frame =
  dates :: "string list"
  columns :: "(string \<times> int list) list"

text \<open>\<^verbatim>\<open>df.empty\<close>: no row or no column.\<close>

definition frame_empty :: "frame \<Rightarrow> bool" where
  "frame_empty df = (dates df = [] \<or> columns df = [])"

text \<open>
  The exceptions of pandas 2 in lines 174 to 184: \<^verbatim>\<open>reset_index\<close> cannot insert the
  index as the column \<^verbatim>\<open>date\<close> when the frame has a column of that name;
  \<^verbatim>\<open>pd.melt\<close> refuses a frame that has a column named as \<^verbatim>\<open>value_name\<close>, and
  value variables that are no columns of the frame.
\<close>

datatype pandas_failure = DateExists | ValueNameClash | Missing "string list"

text \<open>
  The trends library as one run meets it: \<open>client_init\<close> is the constructor of line 10,
  the \<open>_body\<close> fields stand for the statements of the \<^verbatim>\<open>try\<close> blocks of lines 14 to 42,
  51 to 79, 88 to 116 and 125 to 148 up to the choice between data and no data (\<open>None\<close>),
  \<open>request\<close> for lines 163 and 166 (the number of requests made before, the chunk, the
  period and the region), and \<open>pandas_error\<close> gives the text of an exception of pandas.
\<close>

record trends_env =
  t_imports_ok :: bool
  client_init :: "unit outcome"
  interest_body :: "string list \<Rightarrow> string \<Rightarrow> json option outcome"
  queries_body :: "string \<Rightarrow> string \<Rightarrow> json option outcome"
  topics_body :: "string \<Rightarrow> string \<Rightarrow> json option outcome"
  trending_body :: "string \<Rightarrow> (string \<times> json) option outcome"
  request :: "nat \<Rightarrow> string list \<Rightarrow> string \<Rightarrow> string \<Rightarrow> frame outcome"
  pandas_error :: "pandas_failure \<Rightarrow> string"

definition no_data :: dict where
  "no_data = error_dict ''No data returned for the query''"





text \<open>Line 159: \<^verbatim>\<open>[kw[i:i+5] for i in range(0, len(kw), 5)]\<close>, with \<open>i = 5 * j\<close>.\<close>

definition chunks_of :: "'a list \<Rightarrow> 'a list list" where
  "chunks_of industry_keywords =
     map (\<lambda>j. take 5 (drop (5 * j) industry_keywords))
       [0 ..< (length industry_keywords + 4) div 5]"

text \<open>One record of the melted frame.\<close>

definition record_of :: "string \<Rightarrow> string \<times> int \<Rightarrow> json" where
  "record_of keyword row =
     JObj [(''date'', JStr (fst row)), (''keyword'', JStr keyword), (''interest'', JInt (snd row))]"

text \<open>The labels of a list without repetition, each at its first place.\<close>

fun unique_labels :: "string list \<Rightarrow> string list \<Rightarrow> string list" where
  "unique_labels seen [] = []"
| "unique_labels seen (k # ks) =
     (if k \<in> set seen then unique_labels seen ks else k # unique_labels (k # seen) ks)"

text \<open>
  Lines 170 to 187 for a frame that is not empty: the column \<^verbatim>\<open>isPartial\<close> dropped, the
  index made the column \<^verbatim>\<open>date\<close>, and the frame melted with the chunk as value
  variables. \<^verbatim>\<open>pd.melt\<close> looks up the positions of \<^verbatim>\<open>date\<close> and of the keywords among
  the columns, refuses a keyword that has none, and keeps each position once, at its first
  place; its records are those of the kept columns, column by column, each with its rows
  in order.
\<close>

definition frame_records :: "trends_env \<Rightarrow> frame \<Rightarrow> string list \<Rightarrow> json list outcome" where
  "frame_records env df chunk =
     (let cols = filter (\<lambda>col. fst col \<noteq> ''isPartial'') (columns df);
          missing = filter (\<lambda>k. k \<noteq> ''date'' \<and> k \<notin> set (map fst cols)) chunk
      in if ''date'' \<in> set (map fst cols) then Raises (pandas_error env DateExists)
         else if ''interest'' \<in> set (map fst cols) then Raises (pandas_error env ValueNameClash)
         else if missing \<noteq> [] then Raises (pandas_error env (Missing missing))
         else Returns
           (concat (map (\<lambda>k. concat (map (\<lambda>col. map (record_of k) (zip (dates df) (snd col)))
                                       (filter (\<lambda>col. fst col = k) cols)))
                        (unique_labels [] chunk))))"

text \<open>Lines 161 to 187: the loop over the chunks; the state is the list of the chunks
  requested so far and \<^verbatim>\<open>all_data\<close>.\<close>

fun industry_loop ::
  "trends_env \<Rightarrow> string \<Rightarrow> string \<Rightarrow> string list list \<Rightarrow> string list list \<times> json list \<Rightarrow>
   string list list \<times> json list outcome" where
  "industry_loop env period region [] (requested, all_data) = (requested, Returns all_data)"
| "industry_loop env period region (chunk # rest) (requested, all_data) =
     (case request env (length requested) chunk period region of
        Raises m \<Rightarrow> (requested @ [chunk], Raises m)
      | Returns interest_df \<Rightarrow>
          (if \<not> frame_empty interest_df
           then (case frame_records env interest_df chunk of
                   Raises m \<Rightarrow> (requested @ [chunk], Raises m)
                 | Returns recs \<Rightarrow>
                     industry_loop env period region rest (requested @ [chunk], all_data @ recs))
           else industry_loop env period region rest (requested @ [chunk], all_data)))"

definition industry_run ::
  "trends_env \<Rightarrow> string list \<Rightarrow> string \<Rightarrow> string \<Rightarrow> string list list \<times> json list outcome" where
  "industry_run env industry_keywords period region =
     industry_loop env period region (chunks_of industry_keywords) ([], [])"

definition get_industry_interest :: "trends_env \<Rightarrow> string list \<Rightarrow> string \<Rightarrow> string \<Rightarrow> dict" where
  "get_industry_interest env industry_keywords period region =
     (case snd (industry_run env industry_keywords period region) of
        Raises m \<Rightarrow> error_dict m
      | Returns all_data \<Rightarrow>
          (if all_data \<noteq> []
           then [(''status'', JStr ''success''), (''region'', JStr region),
                 (''period'', JStr period), (''data'', JArr all_data)]
           else no_data))"


section \<open>Notions used to state the properties\<close>

text \<open>\<^verbatim>\<open>sub in s\<close>: the text \<open>s\<close> has an occurrence of \<open>sub\<close>.\<close>

fun contains :: "string \<Rightarrow> string \<Rightarrow> bool" where
  "contains [] sub = (sub = [])"
| "contains (c # cs) sub = (startswith (c # cs) sub \<or> contains cs sub)"




text \<open>Whether the request number \<open>i\<close>, made for a chunk, or the melt of its frame,
  raises; and the records that the request adds to \<^verbatim>\<open>all_data\<close>.\<close>

definition chunk_raises ::
  "trends_env \<Rightarrow> string \<Rightarrow> string \<Rightarrow> nat \<times> string list \<Rightarrow> bool" where
  "chunk_raises env period region ic =
     (case request env (fst ic) (snd ic) period region of
        Raises m \<Rightarrow> True
      | Returns df \<Rightarrow>
          if frame_empty df then False
          else (case frame_records env df (snd ic) of Raises m \<Rightarrow> True | Returns recs \<Rightarrow> False))"

definition chunk_records ::
  "trends_env \<Rightarrow> string \<Rightarrow> string \<Rightarrow> nat \<times> string list \<Rightarrow> json list" where
  "chunk_records env period region ic =
     (case request env (fst ic) (snd ic) period region of
        Raises m \<Rightarrow> []
      | Returns df \<Rightarrow>
          if frame_empty df then []
          else (case frame_records env df (snd ic) of Raises m \<Rightarrow> [] | Returns recs \<Rightarrow> recs))"

subsection \<open>Sample runs\<close>


text \<open>The frame of one date with the value 50 for each keyword of a chunk, and the column
  \<^verbatim>\<open>isPartial\<close>.\<close>

definition sample_frame :: "string list \<Rightarrow> frame" where
  "sample_frame chunk =
     \<lparr>dates = [''2024-01-07''],
      columns = map (\<lambda>keyword. (keyword, [50])) chunk @ [(''isPartial'', [0])]\<rparr>"

text \<open>A run of google\_trends.py in which every data call raises.\<close>

definition failing_trends :: trends_env where
  "failing_trends =
     \<lparr>t_imports_ok = True,
      client_init = Returns (),
      interest_body = (\<lambda>keywords period. Raises ''429''),
      queries_body = (\<lambda>keyword period. Raises ''429''),
      topics_body = (\<lambda>keyword period. Raises ''429''),
      trending_body = (\<lambda>geo. Raises ''429''),
      request = (\<lambda>i chunk period region. Raises ''429''),
      pandas_error = (\<lambda>failure. ''pandas'')\<rparr>"

text \<open>A run of google\_trends.py in which every request gives the sample frame of its
  chunk.\<close>

definition sample_trends :: trends_env where
  "sample_trends =
     \<lparr>t_imports_ok = True,
      client_init = Returns (),
      interest_body = (\<lambda>keywords period. Returns None),
      queries_body = (\<lambda>keyword period. Returns None),
      topics_body = (\<lambda>keyword period. Returns None),
      trending_body = (\<lambda>geo. Returns None),
      request = (\<lambda>i chunk period region. Returns (sample_frame chunk)),
      pandas_error = (\<lambda>failure. ''pandas'')\<rparr>"

text \<open>A run of google\_trends.py in which the second request raises and every other
  request gives the sample frame of its chunk.\<close>

definition second_request_fails :: trends_env where
  "second_request_fails =
     \<lparr>t_imports_ok = True,
      client_init = Returns (),
      interest_body = (\<lambda>keywords period. Returns None),
      queries_body = (\<lambda>keyword period. Returns None),
      topics_body = (\<lambda>keyword period. Returns None),
      trending_body = (\<lambda>geo. Returns None),
      request = (\<lambda>i chunk period region.
        if i = 1 then Raises ''429'' else Returns (sample_frame chunk)),
      pandas_error = (\<lambda>failure. ''pandas'')\<rparr>"



section \<open>Facts about the string operations\<close>

lemma py_split_nonempty: "py_split sep s \<noteq> []"
  by (induction sep s rule: py_split.induct) (auto split: list.splits)

lemma startswith_append_short:
  "length p \<le> length a \<Longrightarrow> startswith (a @ b) p = startswith a p"
  by (simp add: startswith_def)

lemma startswith_self_append: "startswith (p @ b) p"
  by (simp add: startswith_def)



text \<open>A separator whose first character does not occur again in it cannot match across
  the seam of a text and an appended separator.\<close>

lemma no_overhang:
  assumes sep: "sep \<noteq> []" "hd sep \<notin> set (tl sep)"
    and a: "a \<noteq> []" "length a < length sep"
  shows "\<not> startswith (a @ sep @ b) sep"
proof
  assume "startswith (a @ sep @ b) sep"
  then have eq: "take (length sep) (a @ sep @ b) = sep" by (simp add: startswith_def)
  have "sep ! length a = take (length sep) (a @ sep @ b) ! length a"
    using eq by simp
  also have "\<dots> = (a @ sep @ b) ! length a"
    using a(2) by (simp only: nth_take)
  also have "\<dots> = hd sep" using sep(1) by (simp add: nth_append hd_conv_nth)
  finally have "sep ! length a = hd sep" .
  moreover have "sep ! length a \<in> set (tl sep)"
  proof -
    obtain x xs where "sep = x # xs" using sep(1) by (cases sep) auto
    then show ?thesis using a by (cases "length a") auto
  qed
  ultimately show False using sep(2) by simp
qed

lemma py_split_append:
  assumes sep: "sep \<noteq> []" "hd sep \<notin> set (tl sep)"
  shows "py_split sep (a @ sep @ b) = py_split sep a @ py_split sep b"
  using sep
proof (induction sep a rule: py_split.induct)
  case (1 sep)
  then obtain x xs where s: "sep = x # xs" by (cases sep) auto
  have "startswith (sep @ b) sep" by (rule startswith_self_append)
  then show ?case using 1 s by simp
next
  case (2 sep c cs)
  show ?case
  proof (cases "startswith (c # cs) sep")
    case True
    have "length (take (length sep) (c # cs)) = length sep"
      using True by (simp add: startswith_def)
    then have le: "length sep \<le> length (c # cs)" by simp
    then have sw: "startswith (c # (cs @ sep @ b)) sep"
      using True startswith_append_short[of sep "c # cs" "sep @ b"] by simp
    obtain x xs where sx: "sep = x # xs" using 2(3) by (cases sep) auto
    have dr: "drop (length sep) (c # (cs @ sep @ b)) = drop (length sep) (c # cs) @ sep @ b"
      using le unfolding sx by simp
    have "py_split sep ((c # cs) @ sep @ b) = [] # py_split sep (drop (length sep) (c # cs) @ sep @ b)"
      using sw 2(3) dr by simp
    also have "\<dots> = [] # (py_split sep (drop (length sep) (c # cs)) @ py_split sep b)"
      using 2(1) True 2(3,4) by simp
    also have "\<dots> = py_split sep (c # cs) @ py_split sep b"
      using True 2(3) by simp
    finally show ?thesis .
  next
    case False
    have nsw: "\<not> startswith (c # (cs @ sep @ b)) sep"
    proof (cases "length sep \<le> length (c # cs)")
      case True
      then show ?thesis using False startswith_append_short[of sep "c # cs" "sep @ b"] by simp
    next
      case False
      then show ?thesis using no_overhang[OF 2(3,4), of "c # cs" b] by simp
    qed
    obtain f fs where r: "py_split sep cs = f # fs"
      using py_split_nonempty by (cases "py_split sep cs") auto
    have ih: "py_split sep (cs @ sep @ b) = py_split sep cs @ py_split sep b"
      using 2(2) False 2(3,4) by simp
    show ?thesis using nsw False r ih by simp
  qed
qed

lemma sep2_props: "sep2 \<noteq> []" "hd sep2 \<notin> set (tl sep2)"
  by (simp_all add: sep2_def)

section \<open>Facts about the converter\<close>

text \<open>A text followed by one more section: the document of the text, followed by the
  nodes of the section; and the same with further sections after it.\<close>

lemma convert_append_sections:
  "convert (pre @ sep2 @ post) = convert pre @ concat (map emit_section (py_split sep2 post))"
proof -
  obtain f fs where r: "py_split sep2 pre = f # fs"
    using py_split_nonempty by (cases "py_split sep2 pre") auto
  have "py_split sep2 (pre @ sep2 @ post) = py_split sep2 pre @ py_split sep2 post"
    by (rule py_split_append[OF sep2_props])
  then show ?thesis by (simp add: convert_def doc_title_def r)
qed

lemma section_S_fragment:
  "py_split sep2 ''S\<newline>text\<newline>### Sub\<newline>more'' = [''S\<newline>text\<newline>### Sub\<newline>more'']"
  by code_simp

lemma section_S_nodes:
  "emit_section ''S\<newline>text\<newline>### Sub\<newline>more'' =
     [Heading 1 ''S'', Paragraph ''text'', Heading 2 ''Sub'', Paragraph ''more'']"
  by code_simp

text \<open>Under a subsection, the bulleted block of the specification's example gives its
  three items.\<close>

lemma subsection_block_bulleted:
  "emit_block ''- one\<newline>- two\<newline>- three'' =
     [ListBullet ''one'', ListBullet ''two'', ListBullet ''three'']"
  by code_simp

lemma py_int_abc: "py_int ''abc'' = None"
  by code_simp



text \<open>The first fragment of a content that begins with the marker of level 3 begins
  with it too.\<close>

lemma first_fragment_marker:
  assumes "startswith s ''### ''"
  shows "startswith (hd (py_split sep3 s)) ''### ''"
proof -
  have "take (length ''### '') s = ''### ''" using assms unfolding startswith_def .
  then have "s = ''### '' @ drop (length ''### '') s" by (metis append_take_drop_id)
  then obtain r where s: "s = CHR ''#'' # CHR ''#'' # CHR ''#'' # CHR '' '' # r" by simp
  obtain f fs where r: "py_split sep3 r = f # fs"
    using py_split_nonempty by (cases "py_split sep3 r") auto
  show ?thesis unfolding s by (simp add: sep3_def[symmetric] r) (simp add: sep3_def startswith_def r)
qed

lemma marker_prefix:
  assumes "startswith x ''### ''"
  shows "startswith x ''###''"
proof -
  have "take (length ''### '') x = ''### ''" using assms unfolding startswith_def .
  then have "x = ''### '' @ drop (length ''### '') x" by (metis append_take_drop_id)
  then obtain r where "x = CHR ''#'' # CHR ''#'' # CHR ''#'' # CHR '' '' # r" by simp
  then show ?thesis by (simp add: startswith_def)
qed





lemma concat_map_Nil: "(\<And>x. f x = []) \<Longrightarrow> concat (map f xs) = []"
  by (induction xs) simp_all









text \<open>A plain paragraph of the document never has an empty text; and a title fragment
  with the marker at its start only gives the text after the marker.\<close>

lemma paragraph_emit_direct: "Paragraph t \<in> set (emit_direct p) \<Longrightarrow> t \<noteq> []"
  by (auto simp: emit_direct_def split: if_splits)

lemma paragraph_emit_block: "Paragraph t \<in> set (emit_block p) \<Longrightarrow> t \<noteq> []"
  by (auto simp: emit_block_def emit_item_def split: if_splits)

lemma paragraph_emit_subsection: "Paragraph t \<in> set (emit_subsection s) \<Longrightarrow> t \<noteq> []"
  by (auto simp: emit_subsection_def dest: paragraph_emit_block split: if_splits)

lemma paragraph_emit_section: "Paragraph t \<in> set (emit_section s) \<Longrightarrow> t \<noteq> []"
  by (auto simp: emit_section_def Let_def split: if_splits
      dest: paragraph_emit_direct paragraph_emit_subsection)

lemma paragraph_nodes_nonempty: "Paragraph t \<in> set (convert text) \<Longrightarrow> t \<noteq> []"
  by (auto simp: convert_def dest: paragraph_emit_section)

lemma py_replace_none: "\<not> contains s old \<Longrightarrow> py_replace old new s = s"
  by (induction s) auto

lemma title_single_marker:
  assumes "py_strip (hd (py_split sep2 text)) = ''# '' @ t" "\<not> contains t ''# ''"
  shows "doc_title text = t"
proof -
  have "py_replace ''# '' [] (''# '' @ t) = py_replace ''# '' [] t"
    by (simp add: startswith_def)
  then show ?thesis using assms by (simp add: doc_title_def py_replace_none)
qed

section \<open>Facts about the adapters\<close>



lemma first_chunk: "kws \<noteq> [] \<Longrightarrow> chunks_of kws = take 5 kws # tl (chunks_of kws)"
proof -
  assume "kws \<noteq> []"
  then have "0 < (length kws + 4) div 5" by (cases kws) auto
  then obtain n where n: "(length kws + 4) div 5 = Suc n" by (cases "(length kws + 4) div 5") auto
  show ?thesis by (simp add: chunks_of_def n upt_rec[of 0])
qed



lemma concat_take_chunks:
  "concat (map (\<lambda>j. take 5 (drop (5 * j) xs)) [0..<n]) = take (5 * n) xs"
proof (induction n)
  case 0
  then show ?case by simp
next
  case (Suc n)
  have "take (5 * n + 5) xs = take (5 * n) xs @ take 5 (drop (5 * n) xs)"
    by (rule take_add)
  then have "take (5 * Suc n) xs = take (5 * n) xs @ take 5 (drop (5 * n) xs)"
    by (simp add: add.commute)
  then show ?case using Suc by simp
qed

lemma concat_chunks_of: "concat (chunks_of xs) = xs"
  by (simp add: chunks_of_def concat_take_chunks)

lemma chunk_length:
  assumes "c \<in> set (chunks_of xs)"
  shows "1 \<le> length c \<and> length c \<le> 5"
proof -
  obtain j where j: "j < (length xs + 4) div 5" "c = take 5 (drop (5 * j) xs)"
    using assms by (auto simp: chunks_of_def)
  have "5 * j < length xs" using j(1) by linarith
  then show ?thesis using j(2) by simp
qed

lemma chunks_of_nonempty: "xs \<noteq> [] \<Longrightarrow> chunks_of xs \<noteq> []"
  using first_chunk by fastforce

text \<open>One turn of the loop: a chunk that raises ends it, any other adds its records.\<close>

lemma loop_step_raises:
  assumes "chunk_raises env p r (length log, c)"
  shows "\<exists>m. industry_loop env p r (c # cs) (log, acc) = (log @ [c], Raises m)"
proof (cases "request env (length log) c p r")
  case (Raises m)
  then show ?thesis by simp
next
  case (Returns df)
  then have ne: "\<not> frame_empty df" using assms by (auto simp: chunk_raises_def)
  then obtain m where "frame_records env df c = Raises m"
    using assms Returns by (cases "frame_records env df c") (auto simp: chunk_raises_def)
  then show ?thesis using Returns ne by simp
qed

lemma loop_step_goes_on:
  assumes "\<not> chunk_raises env p r (length log, c)"
  shows "industry_loop env p r (c # cs) (log, acc) =
       industry_loop env p r cs (log @ [c], acc @ chunk_records env p r (length log, c))"
proof (cases "request env (length log) c p r")
  case (Raises m)
  then show ?thesis using assms by (simp add: chunk_raises_def)
next
  case (Returns df)
  show ?thesis
  proof (cases "frame_empty df")
    case True
    then show ?thesis using Returns by (simp add: chunk_records_def)
  next
    case False
    then obtain recs where "frame_records env df c = Returns recs"
      using assms Returns by (cases "frame_records env df c") (auto simp: chunk_raises_def)
    then show ?thesis using Returns False by (simp add: chunk_records_def)
  qed
qed

lemma industry_loop_requests:
  "fst (industry_loop env p r cs (log, acc)) =
     log @ take (Suc (length (takeWhile (\<lambda>ic. \<not> chunk_raises env p r ic)
                                (enumerate (length log) cs)))) cs"
proof (induction cs arbitrary: log acc)
  case Nil
  then show ?case by simp
next
  case (Cons c cs)
  show ?case
  proof (cases "chunk_raises env p r (length log, c)")
    case True
    then obtain m where "industry_loop env p r (c # cs) (log, acc) = (log @ [c], Raises m)"
      using loop_step_raises by blast
    then show ?thesis using True by simp
  next
    case False
    have "fst (industry_loop env p r (c # cs) (log, acc)) =
        fst (industry_loop env p r cs (log @ [c], acc @ chunk_records env p r (length log, c)))"
      using loop_step_goes_on[OF False] by simp
    also have "\<dots> = (log @ [c]) @ take (Suc (length (takeWhile (\<lambda>ic. \<not> chunk_raises env p r ic)
                                (enumerate (length (log @ [c])) cs)))) cs"
      by (rule Cons.IH)
    finally show ?thesis using False by simp
  qed
qed

lemma industry_loop_Returns:
  "list_all (\<lambda>ic. \<not> chunk_raises env p r ic) (enumerate (length log) cs) \<Longrightarrow>
     snd (industry_loop env p r cs (log, acc)) =
       Returns (acc @ concat (map (chunk_records env p r) (enumerate (length log) cs)))"
proof (induction cs arbitrary: log acc)
  case Nil
  then show ?case by simp
next
  case (Cons c cs)
  then have ok: "\<not> chunk_raises env p r (length log, c)"
    and rest: "list_all (\<lambda>ic. \<not> chunk_raises env p r ic) (enumerate (length (log @ [c])) cs)"
    by simp_all
  have "snd (industry_loop env p r (c # cs) (log, acc)) =
      snd (industry_loop env p r cs (log @ [c], acc @ chunk_records env p r (length log, c)))"
    using loop_step_goes_on[OF ok] by simp
  also have "\<dots> = Returns ((acc @ chunk_records env p r (length log, c)) @
      concat (map (chunk_records env p r) (enumerate (length (log @ [c])) cs)))"
    by (rule Cons.IH[OF rest])
  finally show ?case by simp
qed

lemma industry_loop_Raises:
  "\<not> list_all (\<lambda>ic. \<not> chunk_raises env p r ic) (enumerate (length log) cs) \<Longrightarrow>
     \<exists>m. snd (industry_loop env p r cs (log, acc)) = Raises m"
proof (induction cs arbitrary: log acc)
  case Nil
  then show ?case by simp
next
  case (Cons c cs)
  show ?case
  proof (cases "chunk_raises env p r (length log, c)")
    case True
    then obtain m where "industry_loop env p r (c # cs) (log, acc) = (log @ [c], Raises m)"
      using loop_step_raises by blast
    then show ?thesis by simp
  next
    case False
    then have rest: "\<not> list_all (\<lambda>ic. \<not> chunk_raises env p r ic) (enumerate (length (log @ [c])) cs)"
      using Cons.prems by simp
    have "snd (industry_loop env p r (c # cs) (log, acc)) =
        snd (industry_loop env p r cs (log @ [c], acc @ chunk_records env p r (length log, c)))"
      using loop_step_goes_on[OF False] by simp
    then show ?thesis using Cons.IH[OF rest] by simp
  qed
qed

lemma unique_labels_subset: "set (unique_labels seen ks) \<subseteq> set ks"
  by (induction ks arbitrary: seen) auto

lemma frame_records_shape:
  assumes "frame_records env df c = Returns recs" "rec \<in> set recs"
  shows "\<exists>k\<in>set c. \<exists>d v. rec = JObj [(''date'', JStr d), (''keyword'', JStr k), (''interest'', JInt v)]"
proof -
  obtain k row where k: "k \<in> set (unique_labels [] c)" and "rec = record_of k row"
    using assms by (auto simp: frame_records_def Let_def split: if_splits)
  then have "rec = JObj [(''date'', JStr (fst row)), (''keyword'', JStr k), (''interest'', JInt (snd row))]"
    by (simp add: record_of_def)
  moreover have "k \<in> set c" using k unique_labels_subset by blast
  ultimately show ?thesis by blast
qed

lemma chunk_records_shape:
  assumes "rec \<in> set (chunk_records env p r (i, c))"
  shows "\<exists>k\<in>set c. \<exists>d v. rec = JObj [(''date'', JStr d), (''keyword'', JStr k), (''interest'', JInt v)]"
proof (cases "request env i c p r")
  case (Raises m)
  then show ?thesis using assms by (simp add: chunk_records_def)
next
  case (Returns df)
  show ?thesis
  proof (cases "frame_records env df c")
    case (Raises m)
    then show ?thesis using assms Returns by (auto simp: chunk_records_def split: if_splits)
  next
    case inner: (Returns recs)
    then have "rec \<in> set recs"
      using assms Returns by (auto simp: chunk_records_def split: if_splits)
    with inner show ?thesis by (rule frame_records_shape)
  qed
qed

lemma sample_chunks:
  "chunks_of [''a'', ''b'', ''c'', ''d'', ''e'', ''f''] = [[''a'', ''b'', ''c'', ''d'', ''e''], [''f'']]"
  by code_simp

lemma sample_result:
  "get_industry_interest sample_trends [''a'', ''b'', ''c'', ''d'', ''e'', ''f''] ''today 12-m'' ''US'' =
     [(''status'', JStr ''success''), (''region'', JStr ''US''), (''period'', JStr ''today 12-m''),
      (''data'', JArr (map (\<lambda>k. JObj [(''date'', JStr ''2024-01-07''), (''keyword'', JStr k),
           (''interest'', JInt 50)]) [''a'', ''b'', ''c'', ''d'', ''e'', ''f'']))]"
  by code_simp

section \<open>The claims\<close>

text \<open>
  C5. The section \<^verbatim>\<open>## S\<close>, \<^verbatim>\<open>text\<close>, \<^verbatim>\<open>### Sub\<close>, \<^verbatim>\<open>more\<close> of a document gives the
  heading of level 1 \<open>S\<close>, one paragraph \<open>text\<close>, the heading of level 2 \<open>Sub\<close> and one
  paragraph \<open>more\<close>, and nothing else: as the only section after the title \<^verbatim>\<open># T\<close>, as
  the last section after any text, and as a section followed by further sections.
\<close>

theorem subsection_nesting:
  "convert ''# T\<newline>## S\<newline>text\<newline>### Sub\<newline>more'' =
     [Heading 0 ''T'', Heading 1 ''S'', Paragraph ''text'', Heading 2 ''Sub'', Paragraph ''more'']
   \<and> convert (pre @ ''\<newline>## S\<newline>text\<newline>### Sub\<newline>more'') =
     convert pre @ [Heading 1 ''S'', Paragraph ''text'', Heading 2 ''Sub'', Paragraph ''more'']
   \<and> convert (pre @ ''\<newline>## S\<newline>text\<newline>### Sub\<newline>more'' @ sep2 @ post) =
     convert pre @ [Heading 1 ''S'', Paragraph ''text'', Heading 2 ''Sub'', Paragraph ''more'']
       @ concat (map emit_section (py_split sep2 post))"
proof -
  let ?s = "''S\<newline>text\<newline>### Sub\<newline>more''"
  let ?N = "[Heading 1 ''S'', Paragraph ''text'', Heading 2 ''Sub'', Paragraph ''more'']"
  have e: "''\<newline>## S\<newline>text\<newline>### Sub\<newline>more'' = sep2 @ ?s" by (simp add: sep2_def)
  have 1: "convert ''# T\<newline>## S\<newline>text\<newline>### Sub\<newline>more'' = Heading 0 ''T'' # ?N"
    by code_simp
  have n: "concat (map emit_section (py_split sep2 ?s)) = ?N"
    by (simp only: section_S_fragment section_S_nodes list.map concat.simps append_Nil2)
  have "convert (pre @ sep2 @ ?s) = convert pre @ ?N"
    by (simp only: convert_append_sections n)
  then have 2: "convert (pre @ ''\<newline>## S\<newline>text\<newline>### Sub\<newline>more'') = convert pre @ ?N"
    by (simp only: e)
  have "py_split sep2 (?s @ sep2 @ post) = py_split sep2 ?s @ py_split sep2 post"
    by (rule py_split_append[OF sep2_props])
  then have "concat (map emit_section (py_split sep2 (?s @ sep2 @ post))) =
      ?N @ concat (map emit_section (py_split sep2 post))"
    using n by (simp only: map_append concat_append)
  then have "convert (pre @ sep2 @ (?s @ sep2 @ post)) =
      convert pre @ ?N @ concat (map emit_section (py_split sep2 post))"
    by (simp only: convert_append_sections)
  then have 3: "convert (pre @ ''\<newline>## S\<newline>text\<newline>### Sub\<newline>more'' @ sep2 @ post) =
      convert pre @ ?N @ concat (map emit_section (py_split sep2 post))"
    by (simp only: e append_assoc)
  show ?thesis using 1 2 3 by blast
qed

text \<open>
  C2. The title is the first fragment, stripped, with every occurrence of \<^verbatim>\<open># \<close> removed
  (line 42 calls \<^verbatim>\<open>replace\<close>), not only the leading marker: for the first line
  \<^verbatim>\<open># C# Guide\<close> the title of the document is \<open>CGuide\<close>, where the claim says
  \<open>C# Guide\<close>.
\<close>

theorem title_marker_removed_everywhere:
  "doc_title ''# C# Guide\<newline>## Intro'' = ''CGuide''"
  by code_simp

text \<open>
  C1. A block directly under a section is not classified (lines 60 to 63 have no test
  for a list, lines 81 to 86 under a subsection have it): the block
  \<^verbatim>\<open>- one\<close>, \<^verbatim>\<open>- two\<close>, \<^verbatim>\<open>- three\<close> directly under \<^verbatim>\<open>## S\<close> is emitted as one paragraph
  with the markers in its text, where the claim says a list of three items.
\<close>

theorem direct_block_not_bulleted:
  "convert ''# T\<newline>## S\<newline>- one\<newline>- two\<newline>- three'' =
     [Heading 0 ''T'', Heading 1 ''S'', Paragraph ''- one\<newline>- two\<newline>- three'']"
  by code_simp

text \<open>
  C7. An item of a bulleted block is tested for emptiness before its marker is removed
  (lines 83 to 86): the item \<^verbatim>\<open>- \<close> passes the test and is emitted as a list item with
  empty text, where the claim says that the document has no empty content node.
\<close>

theorem empty_bullet_emitted:
  "convert ''# T\<newline>## S\<newline>intro\<newline>### Sub\<newline>- \<newline>- x'' =
     [Heading 0 ''T'', Heading 1 ''S'', Paragraph ''intro'', Heading 2 ''Sub'',
      ListBullet [], ListBullet ''x'']"
  by code_simp

text \<open>
  C3. In yahoo\_finance.py the conversion \<^verbatim>\<open>int(sys.argv[3])\<close> of line 195 stands outside
  every handler: for the command line \<^verbatim>\<open>search AAPL abc\<close> the run ends with an exception
  that nothing catches and prints nothing to stdout, where the claim says that every
  error is reported by the script itself.
\<close>

theorem search_limit_fault:
  "yahoo_main env [''yahoo_finance.py'', ''search'', ''AAPL'', ''abc''] =
     crashed (if y_imports_ok env then ValueError ''abc'' else ImportError)"
  by (simp add: yahoo_main_def py_int_abc)

text \<open>
  C9. When the content of a section, stripped, begins with \<^verbatim>\<open>### \<close>, the first fragment
  of the content, which holds that leading subsection, gives no node: the section gives
  its heading and then the subsections of the later fragments only.
\<close>

theorem leading_subsection_dropped:
  "startswith (content_of section) ''### '' \<Longrightarrow>
     startswith (hd (py_split sep3 (content_of section))) ''### '' \<and>
     emit_section section =
       Heading 1 (title_of section) #
       concat (map emit_subsection (tl (py_split sep3 (content_of section))))"
proof -
  assume a: "startswith (content_of section) ''### ''"
  have m: "startswith (hd (py_split sep3 (content_of section))) ''### ''"
    by (rule first_fragment_marker[OF a])
  then have "startswith (hd (py_split sep3 (content_of section))) ''###''"
    by (rule marker_prefix)
  then show ?thesis using m by (simp add: emit_section_def Let_def)
qed

theorem leading_subsection_dropped_witness:
  "startswith (content_of ''S\<newline>### Sub\<newline>more\<newline>### Sub2\<newline>x'') ''### '' \<and>
   emit_section ''S\<newline>### Sub\<newline>more\<newline>### Sub2\<newline>x'' =
     [Heading 1 ''S'', Heading 2 ''Sub2'', Paragraph ''x'']"
proof -
  let ?s = "''S\<newline>### Sub\<newline>more\<newline>### Sub2\<newline>x''"
  have h: "startswith (content_of ?s) ''### ''" by code_simp
  have e: "Heading 1 (title_of ?s) # concat (map emit_subsection (tl (py_split sep3 (content_of ?s))))
      = [Heading 1 ''S'', Heading 2 ''Sub2'', Paragraph ''x'']" by code_simp
  show ?thesis using leading_subsection_dropped[OF h] h e by simp
qed






text \<open>
  C10. The chunks of the keyword list, concatenated, are the list; each has between one
  and five keywords; a list that is not empty has a chunk. The requests of a run are made
  chunk by chunk in the order of the chunks, one for each, up to and with the first chunk
  whose request or melt raises, and for every chunk when none raises. When none raises,
  \<^verbatim>\<open>all_data\<close> is the concatenation, in the order of the chunks, of the records that each
  request adds; when one raises, the result is the error of that exception. So the field
  \<^verbatim>\<open>data\<close> of a result with the status \<^verbatim>\<open>success\<close> is that concatenation, all chunks
  having been requested; and every record has a date, a keyword of its chunk and an
  interest.
\<close>

theorem industry_interest_chunks:
  "concat (chunks_of kws) = kws
   \<and> (\<forall>c\<in>set (chunks_of kws). 1 \<le> length c \<and> length c \<le> 5)
   \<and> (kws \<noteq> [] \<longrightarrow> chunks_of kws \<noteq> [])
   \<and> fst (industry_run env kws p r) =
        take (Suc (length (takeWhile (\<lambda>ic. \<not> chunk_raises env p r ic)
                             (enumerate 0 (chunks_of kws)))))
          (chunks_of kws)
   \<and> (list_all (\<lambda>ic. \<not> chunk_raises env p r ic) (enumerate 0 (chunks_of kws)) \<longrightarrow>
         fst (industry_run env kws p r) = chunks_of kws \<and>
         snd (industry_run env kws p r) =
           Returns (concat (map (chunk_records env p r) (enumerate 0 (chunks_of kws)))))
   \<and> (\<not> list_all (\<lambda>ic. \<not> chunk_raises env p r ic) (enumerate 0 (chunks_of kws)) \<longrightarrow>
         (\<exists>m. snd (industry_run env kws p r) = Raises m \<and>
              get_industry_interest env kws p r = error_dict m))
   \<and> (map_of (get_industry_interest env kws p r) ''status'' = Some (JStr ''success'') \<longrightarrow>
         fst (industry_run env kws p r) = chunks_of kws \<and>
         map_of (get_industry_interest env kws p r) ''data'' =
           Some (JArr (concat (map (chunk_records env p r) (enumerate 0 (chunks_of kws))))))
   \<and> (\<forall>rec\<in>set (chunk_records env p r (i, c)).
         \<exists>k\<in>set c. \<exists>d v.
           rec = JObj [(''date'', JStr d), (''keyword'', JStr k), (''interest'', JInt v)])"
proof -
  let ?ok = "\<lambda>ic. \<not> chunk_raises env p r ic"
  let ?cs = "chunks_of kws"
  have req: "fst (industry_run env kws p r) =
      take (Suc (length (takeWhile ?ok (enumerate 0 ?cs)))) ?cs"
    using industry_loop_requests[of env p r ?cs "[]" "[]"] by (simp add: industry_run_def)
  have ret: "fst (industry_run env kws p r) = ?cs \<and>
      snd (industry_run env kws p r) = Returns (concat (map (chunk_records env p r) (enumerate 0 ?cs)))"
    if a: "list_all ?ok (enumerate 0 ?cs)"
  proof -
    have "takeWhile ?ok (enumerate 0 ?cs) = enumerate 0 ?cs"
      using a by (simp add: list_all_iff takeWhile_eq_all_conv)
    then have "fst (industry_run env kws p r) = take (Suc (length (enumerate 0 ?cs))) ?cs"
      using req by (simp only:)
    then have "fst (industry_run env kws p r) = ?cs" by simp
    moreover have "snd (industry_run env kws p r) =
        Returns (concat (map (chunk_records env p r) (enumerate 0 ?cs)))"
      using industry_loop_Returns[of env p r "[]" ?cs "[]"] a by (simp add: industry_run_def)
    ultimately show ?thesis by blast
  qed
  have rai: "\<exists>m. snd (industry_run env kws p r) = Raises m \<and>
      get_industry_interest env kws p r = error_dict m"
    if a: "\<not> list_all ?ok (enumerate 0 ?cs)"
  proof -
    obtain m where "snd (industry_run env kws p r) = Raises m"
      using industry_loop_Raises[of env p r "[]" ?cs "[]"] a by (auto simp: industry_run_def)
    then show ?thesis by (simp add: get_industry_interest_def)
  qed
  have succ: "fst (industry_run env kws p r) = ?cs \<and>
         map_of (get_industry_interest env kws p r) ''data'' =
           Some (JArr (concat (map (chunk_records env p r) (enumerate 0 ?cs))))"
    if s: "map_of (get_industry_interest env kws p r) ''status'' = Some (JStr ''success'')"
  proof (cases "list_all ?ok (enumerate 0 ?cs)")
    case False
    then show ?thesis using rai s by (auto simp: error_dict_def)
  next
    case True
    have "concat (map (chunk_records env p r) (enumerate 0 ?cs)) \<noteq> []"
      using s ret[OF True]
      by (auto simp: get_industry_interest_def error_dict_def no_data_def split: if_splits)
    then show ?thesis using ret[OF True] by (simp add: get_industry_interest_def)
  qed
  show ?thesis
    using concat_chunks_of[of kws] chunk_length[of _ kws] chunks_of_nonempty[of kws]
      req ret rai succ chunk_records_shape[of _ env p r i c]
    by blast
qed

theorem industry_interest_chunks_witness:
  "chunks_of [''a'', ''b'', ''c'', ''d'', ''e'', ''f''] = [[''a'', ''b'', ''c'', ''d'', ''e''], [''f'']] \<and>
   fst (industry_run sample_trends [''a'', ''b'', ''c'', ''d'', ''e'', ''f''] ''today 12-m'' ''US'') =
     [[''a'', ''b'', ''c'', ''d'', ''e''], [''f'']] \<and>
   get_industry_interest sample_trends [''a'', ''b'', ''c'', ''d'', ''e'', ''f''] ''today 12-m'' ''US'' =
     [(''status'', JStr ''success''), (''region'', JStr ''US''), (''period'', JStr ''today 12-m''),
      (''data'', JArr (map (\<lambda>k. JObj [(''date'', JStr ''2024-01-07''), (''keyword'', JStr k),
           (''interest'', JInt 50)]) [''a'', ''b'', ''c'', ''d'', ''e'', ''f'']))]"
proof -
  let ?kws = "[''a'', ''b'', ''c'', ''d'', ''e'', ''f'']"
  have st: "map_of (get_industry_interest sample_trends ?kws ''today 12-m'' ''US'') ''status'' =
      Some (JStr ''success'')"
    by (simp only: sample_result) simp
  have "map_of (get_industry_interest sample_trends ?kws ''today 12-m'' ''US'') ''status'' =
      Some (JStr ''success'') \<longrightarrow>
      fst (industry_run sample_trends ?kws ''today 12-m'' ''US'') = chunks_of ?kws \<and>
      map_of (get_industry_interest sample_trends ?kws ''today 12-m'' ''US'') ''data'' =
        Some (JArr (concat (map (chunk_records sample_trends ''today 12-m'' ''US'')
          (enumerate 0 (chunks_of ?kws)))))"
    using industry_interest_chunks[of ?kws sample_trends "''today 12-m''" "''US''" 0 "[]"]
    by (elim conjE)
  then have "fst (industry_run sample_trends ?kws ''today 12-m'' ''US'') = chunks_of ?kws"
    using st by blast
  then have "fst (industry_run sample_trends ?kws ''today 12-m'' ''US'') =
      [[''a'', ''b'', ''c'', ''d'', ''e''], [''f'']]"
    by (simp only: sample_chunks)
  then show ?thesis using sample_chunks sample_result by (intro conjI)
qed

text \<open>
  The claim C10 as it is written fails in a run in which the second request raises: of
  the three chunks of a list of eleven keywords, the first two are requested and the
  third never is, and the result is an error.
\<close>

theorem later_chunk_not_requested:
  "chunks_of [''a'', ''b'', ''c'', ''d'', ''e'', ''f'', ''g'', ''h'', ''i'', ''j'', ''k''] =
     [[''a'', ''b'', ''c'', ''d'', ''e''], [''f'', ''g'', ''h'', ''i'', ''j''], [''k'']] \<and>
   fst (industry_run second_request_fails
          [''a'', ''b'', ''c'', ''d'', ''e'', ''f'', ''g'', ''h'', ''i'', ''j'', ''k'']
          ''today 12-m'' ''US'') =
     [[''a'', ''b'', ''c'', ''d'', ''e''], [''f'', ''g'', ''h'', ''i'', ''j'']] \<and>
   get_industry_interest second_request_fails
       [''a'', ''b'', ''c'', ''d'', ''e'', ''f'', ''g'', ''h'', ''i'', ''j'', ''k'']
       ''today 12-m'' ''US'' =
     [(''status'', JStr ''error''), (''message'', JStr ''429'')]"
  by code_simp




end
